theory Spec2Isabelle
  imports Main "HOL-Library.Word" "HOL-Library.AList" "HOL-Library.Log_Nat" "HOL-Library.Sublist"
begin

section \<open>JavaScript values used by the resume builder\<close>

text \<open>
  A JavaScript string is a sequence of 16-bit code units. String literals of the
  source are written with \<open>js\<close>, which maps each (ASCII) character to its code unit.
\<close>

type_synonym jschar = "16 word"
type_synonym jsstring = "jschar list"

definition js :: "string \<Rightarrow> jsstring" where
  "js s = map of_char s"

text \<open>
  The code units that \<open>String.prototype.trim\<close> strips and that the regular
  expression class \<open>\s\<close> matches: the WhiteSpace and LineTerminator productions of
  ECMAScript (TAB, LF, VT, FF, CR, SP, NBSP, U+1680, U+2000..U+200A, LS, PS, U+202F,
  U+205F, U+3000, U+FEFF).
\<close>

definition isWhiteSpace :: "jschar \<Rightarrow> bool" where
  "isWhiteSpace c \<longleftrightarrow>
     c \<in> set [9, 10, 11, 12, 13, 32, 160, 5760,
              8192, 8193, 8194, 8195, 8196, 8197, 8198, 8199, 8200, 8201, 8202,
              8232, 8233, 8239, 8287, 12288, 65279]"

definition trim :: "jsstring \<Rightarrow> jsstring" where
  "trim s = rev (dropWhile isWhiteSpace (rev (dropWhile isWhiteSpace s)))"

text \<open>
  The value of a WorkExperience property at run time: \<open>updateWorkExperience\<close> takes
  \<open>value: string | boolean\<close> and stores it under whichever key it is given.
\<close>

datatype jsval = JStr jsstring | JBool bool

subsection \<open>Regular expressions\<close>

text \<open>
  The fragment of regular expressions needed for \<open>/\S+@\S+\.\S+/\<close>: literal
  characters, the class \<open>\S\<close>, sequencing and \<open>+\<close>. \<open>Never\<close>, \<open>Empty\<close> and
  \<open>Alt\<close> only arise as derivatives. Matching is by Brzozowski derivatives.
\<close>

datatype regex =
    Never
  | Empty
  | Chr jschar
  | NotSpace
  | Seq regex regex
  | Alt regex regex
  | Star regex

abbreviation Plus :: "regex \<Rightarrow> regex" where
  "Plus r \<equiv> Seq r (Star r)"

fun nullable :: "regex \<Rightarrow> bool" where
  "nullable Never = False"
| "nullable Empty = True"
| "nullable (Chr c) = False"
| "nullable NotSpace = False"
| "nullable (Seq r s) = (nullable r \<and> nullable s)"
| "nullable (Alt r s) = (nullable r \<or> nullable s)"
| "nullable (Star r) = True"

fun deriv :: "jschar \<Rightarrow> regex \<Rightarrow> regex" where
  "deriv a Never = Never"
| "deriv a Empty = Never"
| "deriv a (Chr c) = (if a = c then Empty else Never)"
| "deriv a NotSpace = (if isWhiteSpace a then Never else Empty)"
| "deriv a (Seq r s) =
     (if nullable r then Alt (Seq (deriv a r) s) (deriv a s) else Seq (deriv a r) s)"
| "deriv a (Alt r s) = Alt (deriv a r) (deriv a s)"
| "deriv a (Star r) = Seq (deriv a r) (Star r)"

fun matches :: "regex \<Rightarrow> jsstring \<Rightarrow> bool" where
  "matches r [] = nullable r"
| "matches r (a # w) = matches (deriv a r) w"

text \<open>
  \<open>RegExp.prototype.test\<close> for a pattern without flags: the pattern is tried at
  every start index \<open>i\<close> of the subject, and matches there when some substring
  starting at \<open>i\<close> matches.
\<close>

definition regex_test :: "regex \<Rightarrow> jsstring \<Rightarrow> bool" where
  "regex_test r s =
     list_ex (\<lambda>i. list_ex (\<lambda>j. matches r (take j (drop i s))) [0..<Suc (length s - i)])
       [0..<Suc (length s)]"

text \<open>The pattern \<open>/\S+@\S+\.\S+/\<close> of \<open>validateStep\<close> (64 is \<open>@\<close>, 46 is \<open>.\<close>).\<close>

definition emailPattern :: regex where
  "emailPattern =
     Seq (Plus NotSpace) (Seq (Chr 64) (Seq (Plus NotSpace) (Seq (Chr 46) (Plus NotSpace))))"

section \<open>Data model\<close>

record ContactInfo =
  firstName :: jsstring
  lastName :: jsstring
  email :: jsstring
  phone :: jsstring
  address :: jsstring
  city :: jsstring
  state :: jsstring
  zipCode :: jsstring

text \<open>
  The properties of a WorkExperience object hold \<open>jsval\<close>s: the interface declares
  strings and one boolean, and \<open>updateWorkExperience\<close> stores the value it is given.
\<close>

record WorkExperience =
  we_id :: jsval
  company :: jsval
  position :: jsval
  startDate :: jsval
  endDate :: jsval
  current :: jsval
  description :: jsval

text \<open>
  Education and Skill objects are only created and removed in what follows; their
  properties have the declared types (\<open>gpa\<close> is optional, \<open>level\<close> is one of four
  literals).
\<close>

record Education =
  edu_id :: jsstring
  institution :: jsstring
  degree :: jsstring
  field :: jsstring
  graduationDate :: jsstring
  gpa :: "jsstring option"

datatype SkillLevel = Beginner | Intermediate | Advanced | Expert

record Skill =
  skill_id :: jsstring
  name :: jsstring
  level :: SkillLevel

record ResumeData =
  contactInfo :: ContactInfo
  workExperience :: "WorkExperience list"
  education :: "Education list"
  skills :: "Skill list"
  summary :: jsstring

text \<open>
  \<open>ValidationErrors\<close> is an object used as a dictionary from string keys to
  messages. It is an association list in insertion order; assigning a property is
  \<open>AList.update\<close> (replace in place, or append), and \<open>Object.keys\<close> is
  \<open>map fst\<close>.
\<close>

type_synonym ValidationErrors = "(string \<times> string) list"

definition STEPS :: "string list" where
  "STEPS = [''contact'', ''experience'', ''education'', ''skills'', ''summary'']"

text \<open>The component state: the \<open>useState\<close> cells the wizard logic reads and writes.\<close>

record Wizard =
  currentStep :: int
  resumeData :: ResumeData
  errors :: ValidationErrors

definition emptyResumeData :: ResumeData where
  "emptyResumeData =
     \<lparr> contactInfo = \<lparr> firstName = [], lastName = [], email = [], phone = [],
                       address = [], city = [], state = [], zipCode = [] \<rparr>,
       workExperience = [], education = [], skills = [], summary = [] \<rparr>"

definition initialWizard :: Wizard where
  "initialWizard = \<lparr> currentStep = 0, resumeData = emptyResumeData, errors = [] \<rparr>"

section \<open>Validation\<close>

text \<open>
  \<open>newErrors k d\<close> is the local object \<open>newErrors\<close> at the end of the \<open>switch\<close> of
  \<open>validateStep(k)\<close> when the resume data is \<open>d\<close>. A string is falsy exactly when
  it is empty. A step index outside 0..4 matches no \<open>case\<close>.
\<close>

definition newErrors :: "int \<Rightarrow> ResumeData \<Rightarrow> ValidationErrors" where
  "newErrors stepIndex d =
     (if stepIndex = 0 then
        (let e0 = [];
             e1 = (if firstName (contactInfo d) = []
                   then AList.update ''firstName'' ''First name is required'' e0 else e0);
             e2 = (if lastName (contactInfo d) = []
                   then AList.update ''lastName'' ''Last name is required'' e1 else e1);
             e3 = (if email (contactInfo d) = []
                   then AList.update ''email'' ''Email is required'' e2
                   else if \<not> regex_test emailPattern (email (contactInfo d))
                   then AList.update ''email'' ''Email is invalid'' e2 else e2);
             e4 = (if phone (contactInfo d) = []
                   then AList.update ''phone'' ''Phone is required'' e3 else e3)
         in e4)
      else if stepIndex = 1 then
        (if length (workExperience d) = 0
         then AList.update ''workExperience'' ''At least one work experience is required'' []
         else [])
      else if stepIndex = 2 then
        (if length (education d) = 0
         then AList.update ''education'' ''At least one education entry is required'' []
         else [])
      else if stepIndex = 3 then
        (if length (skills d) = 0
         then AList.update ''skills'' ''At least one skill is required'' []
         else [])
      else if stepIndex = 4 then
        (if trim (summary d) = []
         then AList.update ''summary'' ''Summary is required'' []
         else [])
      else [])"

text \<open>
  \<open>validateStep\<close> stores the computed errors with \<open>setErrors\<close> and returns whether
  \<open>Object.keys(newErrors).length === 0\<close>.
\<close>

definition validateStep :: "int \<Rightarrow> Wizard \<Rightarrow> bool \<times> Wizard" where
  "validateStep stepIndex w =
     (let e = newErrors stepIndex (resumeData w)
      in (length (map fst e) = 0, w\<lparr>errors := e\<rparr>))"

section \<open>Navigation\<close>

definition nextStep :: "Wizard \<Rightarrow> Wizard" where
  "nextStep w =
     (case validateStep (currentStep w) w of
        (ok, w') \<Rightarrow>
          if ok \<and> currentStep w < int (length STEPS) - 1
          then w'\<lparr>currentStep := currentStep w + 1\<rparr>
          else w')"

definition prevStep :: "Wizard \<Rightarrow> Wizard" where
  "prevStep w = (if currentStep w > 0 then w\<lparr>currentStep := currentStep w - 1\<rparr> else w)"

text \<open>The \<open>onClick\<close> of the sidebar button of step \<open>index\<close>: \<open>setCurrentStep(index)\<close>.\<close>

definition jumpTo :: "int \<Rightarrow> Wizard \<Rightarrow> Wizard" where
  "jumpTo index w = w\<lparr>currentStep := index\<rparr>"

section \<open>Form state store\<close>

text \<open>
  \<open>Number.prototype.toString\<close> on an integer: decimal digits, with a leading minus
  sign (45) for a negative number. Time values are integers of magnitude at most
  8.64e15, far below 1e21 where JavaScript switches to exponent notation.
\<close>

fun digits :: "nat \<Rightarrow> jsstring" where
  "digits n =
     (if n < 10 then [48 + of_nat n] else digits (n div 10) @ [48 + of_nat (n mod 10)])"

declare digits.simps [simp del]

definition toString :: "int \<Rightarrow> jsstring" where
  "toString n = (if n < 0 then 45 # digits (nat (- n)) else digits (nat n))"

text \<open>
  The add operations read the clock: \<open>now\<close> is the value \<open>Date.now()\<close> returns
  in that call (milliseconds since the epoch).
\<close>

definition addWorkExperience :: "int \<Rightarrow> ResumeData \<Rightarrow> ResumeData" where
  "addWorkExperience now prev =
     (let newExp = \<lparr> we_id = JStr (toString now), company = JStr [], position = JStr [],
                      startDate = JStr [], endDate = JStr [], current = JBool False,
                      description = JStr [] \<rparr>
      in prev\<lparr>workExperience := workExperience prev @ [newExp]\<rparr>)"

definition removeWorkExperience :: "jsstring \<Rightarrow> ResumeData \<Rightarrow> ResumeData" where
  "removeWorkExperience i prev =
     prev\<lparr>workExperience := filter (\<lambda>ex. we_id ex \<noteq> JStr i) (workExperience prev)\<rparr>"

text \<open>\<open>keyof WorkExperience\<close>, and the object spread \<open>{ ...exp, [field]: value }\<close>.\<close>

datatype WorkExperienceKey =
  K_id | K_company | K_position | K_startDate | K_endDate | K_current | K_description

fun getProp :: "WorkExperienceKey \<Rightarrow> WorkExperience \<Rightarrow> jsval" where
  "getProp K_id ex = we_id ex"
| "getProp K_company ex = company ex"
| "getProp K_position ex = position ex"
| "getProp K_startDate ex = startDate ex"
| "getProp K_endDate ex = endDate ex"
| "getProp K_current ex = current ex"
| "getProp K_description ex = description ex"

fun spreadWith :: "WorkExperience \<Rightarrow> WorkExperienceKey \<Rightarrow> jsval \<Rightarrow> WorkExperience" where
  "spreadWith ex K_id v = ex\<lparr>we_id := v\<rparr>"
| "spreadWith ex K_company v = ex\<lparr>company := v\<rparr>"
| "spreadWith ex K_position v = ex\<lparr>position := v\<rparr>"
| "spreadWith ex K_startDate v = ex\<lparr>startDate := v\<rparr>"
| "spreadWith ex K_endDate v = ex\<lparr>endDate := v\<rparr>"
| "spreadWith ex K_current v = ex\<lparr>current := v\<rparr>"
| "spreadWith ex K_description v = ex\<lparr>description := v\<rparr>"

definition updateWorkExperience ::
  "jsstring \<Rightarrow> WorkExperienceKey \<Rightarrow> jsval \<Rightarrow> ResumeData \<Rightarrow> ResumeData" where
  "updateWorkExperience i fld v prev =
     prev\<lparr>workExperience :=
       map (\<lambda>ex. if we_id ex = JStr i then spreadWith ex fld v else ex)
         (workExperience prev)\<rparr>"

definition addEducation :: "int \<Rightarrow> ResumeData \<Rightarrow> ResumeData" where
  "addEducation now prev =
     (let newEdu = \<lparr> edu_id = toString now, institution = [], degree = [], field = [],
                      graduationDate = [], gpa = Some [] \<rparr>
      in prev\<lparr>education := education prev @ [newEdu]\<rparr>)"

definition removeEducation :: "jsstring \<Rightarrow> ResumeData \<Rightarrow> ResumeData" where
  "removeEducation i prev =
     prev\<lparr>education := filter (\<lambda>edu. edu_id edu \<noteq> i) (education prev)\<rparr>"

definition addSkill :: "int \<Rightarrow> ResumeData \<Rightarrow> ResumeData" where
  "addSkill now prev =
     (let newSkill = \<lparr> skill_id = toString now, name = [], level = Beginner \<rparr>
      in prev\<lparr>skills := skills prev @ [newSkill]\<rparr>)"

definition removeSkill :: "jsstring \<Rightarrow> ResumeData \<Rightarrow> ResumeData" where
  "removeSkill i prev =
     prev\<lparr>skills := filter (\<lambda>skill. skill_id skill \<noteq> i) (skills prev)\<rparr>"

text \<open>
  The \<open>onChange\<close> handlers of the four required contact inputs and of the summary
  textarea; \<open>v\<close> is \<open>e.target.value\<close>.
\<close>

datatype RequiredContactKey = K_firstName | K_lastName | K_email | K_phone

fun getContact :: "RequiredContactKey \<Rightarrow> ContactInfo \<Rightarrow> jsstring" where
  "getContact K_firstName c = firstName c"
| "getContact K_lastName c = lastName c"
| "getContact K_email c = email c"
| "getContact K_phone c = phone c"

fun setContactField :: "RequiredContactKey \<Rightarrow> jsstring \<Rightarrow> ResumeData \<Rightarrow> ResumeData" where
  "setContactField K_firstName v prev = prev\<lparr>contactInfo := (contactInfo prev)\<lparr>firstName := v\<rparr>\<rparr>"
| "setContactField K_lastName v prev = prev\<lparr>contactInfo := (contactInfo prev)\<lparr>lastName := v\<rparr>\<rparr>"
| "setContactField K_email v prev = prev\<lparr>contactInfo := (contactInfo prev)\<lparr>email := v\<rparr>\<rparr>"
| "setContactField K_phone v prev = prev\<lparr>contactInfo := (contactInfo prev)\<lparr>phone := v\<rparr>\<rparr>"

definition setSummary :: "jsstring \<Rightarrow> ResumeData \<Rightarrow> ResumeData" where
  "setSummary v prev = prev\<lparr>summary := v\<rparr>"

section \<open>Completion percentage\<close>

text \<open>
  JavaScript numbers are IEEE 754 binary64. \<open>fl64 x\<close> rounds the exact result \<open>x\<close>
  of an operation to the nearest binary64 value, ties to even, for \<open>x\<close> in the normal
  range (the operands here lie between 0 and 100): with \<open>e = ilog2 \<bar>x\<bar>\<close> the binary
  exponent, the result is a multiple of \<open>2 ^ (e - 52)\<close>.
\<close>

definition pow2 :: "int \<Rightarrow> rat" where
  "pow2 e = (if 0 \<le> e then 2 ^ nat e else 1 / 2 ^ nat (- e))"

definition ilog2 :: "rat \<Rightarrow> int" where
  "ilog2 x =
     (case quotient_of x of
        (p, q) \<Rightarrow> (let e = bitlen p - bitlen q in if pow2 e \<le> x then e else e - 1))"

definition roundTiesToEven :: "rat \<Rightarrow> int" where
  "roundTiesToEven m =
     (let f = \<lfloor>m\<rfloor>; r = m - of_int f
      in if r < 1 / 2 then f else if 1 / 2 < r then f + 1 else if even f then f else f + 1)"

definition fl64 :: "rat \<Rightarrow> rat" where
  "fl64 x =
     (if x = 0 then 0
      else (let q = pow2 (ilog2 \<bar>x\<bar> - 52)
            in sgn x * of_int (roundTiesToEven (\<bar>x\<bar> / q)) * q))"

text \<open>\<open>Math.round\<close>: the nearest integer, a tie going up.\<close>

definition Math_round :: "rat \<Rightarrow> int" where
  "Math_round x = \<lfloor>x + 1 / 2\<rfloor>"

text \<open>The conditions of the five \<open>if\<close> statements of \<open>getCompletionPercentage\<close>.\<close>

definition contactCompleted :: "ResumeData \<Rightarrow> bool" where
  "contactCompleted d \<longleftrightarrow>
     firstName (contactInfo d) \<noteq> [] \<and> lastName (contactInfo d) \<noteq> [] \<and>
     email (contactInfo d) \<noteq> [] \<and> phone (contactInfo d) \<noteq> []"

definition experienceCompleted :: "ResumeData \<Rightarrow> bool" where
  "experienceCompleted d \<longleftrightarrow> length (workExperience d) > 0"

definition educationCompleted :: "ResumeData \<Rightarrow> bool" where
  "educationCompleted d \<longleftrightarrow> length (education d) > 0"

definition skillsCompleted :: "ResumeData \<Rightarrow> bool" where
  "skillsCompleted d \<longleftrightarrow> length (skills d) > 0"

definition summaryCompleted :: "ResumeData \<Rightarrow> bool" where
  "summaryCompleted d \<longleftrightarrow> trim (summary d) \<noteq> []"

definition completedCount :: "ResumeData \<Rightarrow> nat" where
  "completedCount d =
     (let c0 = 0;
          c1 = (if contactCompleted d then c0 + 1 else c0);
          c2 = (if experienceCompleted d then c1 + 1 else c1);
          c3 = (if educationCompleted d then c2 + 1 else c2);
          c4 = (if skillsCompleted d then c3 + 1 else c3);
          c5 = (if summaryCompleted d then c4 + 1 else c4)
      in c5)"

text \<open>
  \<open>Math.round((completed / total) * 100)\<close>, each operation rounded to binary64;
  \<open>total\<close> is \<open>STEPS.length\<close>, which is 5, so the division is never by zero.
\<close>

definition percentOf :: "nat \<Rightarrow> nat \<Rightarrow> int" where
  "percentOf completed n = Math_round (fl64 (fl64 (of_nat completed / of_nat n) * 100))"

definition getCompletionPercentage :: "ResumeData \<Rightarrow> int" where
  "getCompletionPercentage d = percentOf (completedCount d) (length STEPS)"

section \<open>The wizard as a state machine\<close>

text \<open>
  The intents the rendered component can raise: the Next and Previous buttons, the
  sidebar button of a step, and a store mutation \<open>setResumeData(prev => f(prev))\<close>.
  The sidebar renders one button per element of \<open>STEPS\<close>, so the index of an
  offered jump is an index of \<open>STEPS\<close>.
\<close>

datatype Intent = Next | Previous | JumpTo int | Edit "ResumeData \<Rightarrow> ResumeData"

fun perform :: "Wizard \<Rightarrow> Intent \<Rightarrow> Wizard" where
  "perform w Next = nextStep w"
| "perform w Previous = prevStep w"
| "perform w (JumpTo index) = jumpTo index w"
| "perform w (Edit f) = w\<lparr>resumeData := f (resumeData w)\<rparr>"

fun offered :: "Intent \<Rightarrow> bool" where
  "offered (JumpTo index) = (0 \<le> index \<and> index < int (length STEPS))"
| "offered _ = True"

definition run :: "Intent list \<Rightarrow> Wizard \<Rightarrow> Wizard" where
  "run is w = foldl perform w is"

section \<open>Auxiliary notions and sample inputs\<close>

text \<open>A non-empty run of non-space code units: what \<open>\S+\<close> matches.\<close>

definition nonSpaces :: "jsstring \<Rightarrow> bool" where
  "nonSpaces w \<longleftrightarrow> w \<noteq> [] \<and> list_all (\<lambda>a. \<not> isWhiteSpace a) w"

definition sampleContact :: "string \<Rightarrow> ContactInfo" where
  "sampleContact mail =
     \<lparr> firstName = js ''Ada'', lastName = js ''Lovelace'', email = js mail,
       phone = js ''555-0100'', address = [], city = [], state = [], zipCode = [] \<rparr>"

definition sampleResume :: "string \<Rightarrow> ResumeData" where
  "sampleResume mail = emptyResumeData\<lparr>contactInfo := sampleContact mail\<rparr>"

definition sampleWizard :: "string \<Rightarrow> Wizard" where
  "sampleWizard mail = initialWizard\<lparr>resumeData := sampleResume mail\<rparr>"

definition fullResume :: ResumeData where
  "fullResume =
     setSummary (js '' Engineer '')
       (addSkill 1700000000003 (addEducation 1700000000002
         (addWorkExperience 1700000000001 (sampleResume ''ada@example.com''))))"

definition datedExperience :: ResumeData where
  "datedExperience =
     updateWorkExperience (toString 1700000000000) K_endDate (JStr (js ''2024-05''))
       (addWorkExperience 1700000000000 emptyResumeData)"

definition twoSkills :: ResumeData where
  "twoSkills = addSkill 2 (addSkill 1 emptyResumeData)"

section \<open>Regular expression matching\<close>

lemma matches_Never [simp]: "\<not> matches Never w"
  by (induction w) simp_all

lemma matches_Empty [simp]: "matches Empty w \<longleftrightarrow> w = []"
  by (cases w) simp_all

lemma matches_Chr [simp]: "matches (Chr c) w \<longleftrightarrow> w = [c]"
  by (cases w) auto

lemma matches_NotSpace [simp]:
  "matches NotSpace w \<longleftrightarrow> (\<exists>a. w = [a] \<and> \<not> isWhiteSpace a)"
  by (cases w) auto

lemma matches_Alt [simp]: "matches (Alt r s) w \<longleftrightarrow> matches r w \<or> matches s w"
  by (induction w arbitrary: r s) simp_all

text \<open>
  A split of \<open>a # w\<close> into a match of \<open>r\<close> and a match of \<open>s\<close> either gives
  \<open>r\<close> nothing, or gives it \<open>a\<close> and a prefix of \<open>w\<close>.
\<close>

lemma Cons_split_Seq:
  "(\<exists>u v. a # w = u @ v \<and> matches r u \<and> matches s v) \<longleftrightarrow>
     (nullable r \<and> matches (deriv a s) w) \<or>
     (\<exists>u v. w = u @ v \<and> matches (deriv a r) u \<and> matches s v)"
  (is "?L \<longleftrightarrow> ?N \<or> ?R")
proof
  assume ?L
  then obtain u v where uv: "a # w = u @ v" "matches r u" "matches s v"
    by blast
  show "?N \<or> ?R"
  proof (cases u)
    case Nil
    with uv have "v = a # w" "nullable r" by simp_all
    with uv(3) have "matches (deriv a s) w" "nullable r" by simp_all
    then show ?thesis by blast
  next
    case (Cons x u')
    with uv have "w = u' @ v" "matches (deriv a r) u'" by simp_all
    with uv(3) show ?thesis by blast
  qed
next
  assume "?N \<or> ?R"
  then show ?L
  proof
    assume ?N
    then have "a # w = [] @ (a # w)" "matches r []" "matches s (a # w)" by simp_all
    then show ?L by blast
  next
    assume ?R
    then obtain u v where "w = u @ v" "matches (deriv a r) u" "matches s v" by blast
    then have "a # w = (a # u) @ v" "matches r (a # u)" "matches s v" by simp_all
    then show ?L by blast
  qed
qed

lemma matches_Seq:
  "matches (Seq r s) w \<longleftrightarrow> (\<exists>u v. w = u @ v \<and> matches r u \<and> matches s v)"
proof (induction w arbitrary: r s)
  case Nil
  then show ?case by simp
next
  case (Cons a w)
  show ?case
    unfolding Cons_split_Seq by (auto simp: Cons.IH)
qed

lemma matches_Star_NotSpace:
  "matches (Star NotSpace) w \<longleftrightarrow> list_all (\<lambda>a. \<not> isWhiteSpace a) w"
  by (induction w) (auto simp: matches_Seq)

lemma matches_Plus_NotSpace: "matches (Plus NotSpace) w \<longleftrightarrow> nonSpaces w"
  unfolding nonSpaces_def by (cases w) (auto simp: matches_Seq matches_Star_NotSpace)

lemma regex_test_iff:
  "regex_test r s \<longleftrightarrow> (\<exists>u w v. s = u @ w @ v \<and> matches r w)"
proof
  assume "regex_test r s"
  then obtain i j where "matches r (take j (drop i s))"
    unfolding regex_test_def list_ex_iff by blast
  moreover have "s = take i s @ take j (drop i s) @ drop j (drop i s)"
    by (simp only: append_take_drop_id)
  ultimately show "\<exists>u w v. s = u @ w @ v \<and> matches r w"
    by blast
next
  assume "\<exists>u w v. s = u @ w @ v \<and> matches r w"
  then obtain u w v where s: "s = u @ w @ v" and m: "matches r w"
    by blast
  have "length u \<in> set [0..<Suc (length s)]"
    "length w \<in> set [0..<Suc (length s - length u)]"
    using s by simp_all
  moreover have "take (length w) (drop (length u) s) = w"
    using s by simp
  ultimately show "regex_test r s"
    unfolding regex_test_def list_ex_iff using m by metis
qed

lemma matches_emailPattern:
  "matches emailPattern w \<longleftrightarrow>
     (\<exists>a b c. w = a @ [64] @ b @ [46] @ c \<and> nonSpaces a \<and> nonSpaces b \<and> nonSpaces c)"
  unfolding emailPattern_def
  by (simp only: matches_Seq [of "Plus NotSpace"] matches_Seq [of "Chr _"]
        matches_Plus_NotSpace matches_Chr) blast

text \<open>
  The test succeeds exactly on the strings that contain, somewhere, non-spaces, an
  \<open>@\<close>, non-spaces, a dot and non-spaces.
\<close>

lemma email_test_iff:
  "regex_test emailPattern s \<longleftrightarrow>
     (\<exists>u a b c v. s = u @ a @ [64] @ b @ [46] @ c @ v \<and>
        nonSpaces a \<and> nonSpaces b \<and> nonSpaces c)"
  unfolding regex_test_iff matches_emailPattern
  by (metis append.assoc)

lemma email_test_needs_at: "regex_test emailPattern s \<Longrightarrow> 64 \<in> set s"
  unfolding email_test_iff by auto

lemma not_an_email: "\<not> regex_test emailPattern (js ''not-an-email'')"
proof
  assume "regex_test emailPattern (js ''not-an-email'')"
  then have "64 \<in> set (js ''not-an-email'')"
    by (rule email_test_needs_at)
  then show False
    by (simp add: js_def)
qed

lemma ada_email: "regex_test emailPattern (js ''ada@example.com'')"
proof -
  have "js ''ada@example.com'' = [] @ js ''ada'' @ [64] @ js ''example'' @ [46] @ js ''com'' @ []"
    by (simp add: js_def)
  moreover have "nonSpaces (js ''ada'')" "nonSpaces (js ''example'')" "nonSpaces (js ''com'')"
    by (simp_all add: nonSpaces_def js_def isWhiteSpace_def)
  ultimately show ?thesis
    unfolding email_test_iff by blast
qed

text \<open>
  The search is not a match of the whole string: an email with white space around an
  address-like part passes the test. On strings without white space the two agree.
\<close>

lemma matches_email_no_space:
  "matches emailPattern w \<Longrightarrow> list_all (\<lambda>a. \<not> isWhiteSpace a) w"
  unfolding matches_emailPattern nonSpaces_def
  by (auto simp: isWhiteSpace_def)

lemma john_doe_whole: "\<not> matches emailPattern (js ''john doe@x.y z'')"
proof
  assume "matches emailPattern (js ''john doe@x.y z'')"
  then have "list_all (\<lambda>a. \<not> isWhiteSpace a) (js ''john doe@x.y z'')"
    by (rule matches_email_no_space)
  then show False
    by (simp add: js_def isWhiteSpace_def)
qed

lemma john_doe_search: "regex_test emailPattern (js ''john doe@x.y z'')"
proof -
  have "js ''john doe@x.y z'' =
      js ''john '' @ js ''doe'' @ [64] @ js ''x'' @ [46] @ js ''y'' @ js '' z''"
    by (simp add: js_def)
  moreover have "nonSpaces (js ''doe'')" "nonSpaces (js ''x'')" "nonSpaces (js ''y'')"
    by (simp_all add: nonSpaces_def js_def isWhiteSpace_def)
  ultimately show ?thesis
    unfolding email_test_iff by blast
qed

lemma nonSpaces_append:
  "list_all (\<lambda>a. \<not> isWhiteSpace a) u \<Longrightarrow> nonSpaces a \<Longrightarrow> nonSpaces (u @ a)"
  "nonSpaces c \<Longrightarrow> list_all (\<lambda>a. \<not> isWhiteSpace a) v \<Longrightarrow> nonSpaces (c @ v)"
  by (simp_all add: nonSpaces_def)

lemma email_search_whole:
  assumes "list_all (\<lambda>a. \<not> isWhiteSpace a) s"
  shows "regex_test emailPattern s \<longleftrightarrow> matches emailPattern s"
proof
  assume "regex_test emailPattern s"
  then obtain u a b c v where s: "s = u @ a @ [64] @ b @ [46] @ c @ v"
    and n: "nonSpaces a" "nonSpaces b" "nonSpaces c"
    unfolding email_test_iff by blast
  from assms s have "list_all (\<lambda>a. \<not> isWhiteSpace a) u" "list_all (\<lambda>a. \<not> isWhiteSpace a) v"
    by simp_all
  with n have "nonSpaces (u @ a)" "nonSpaces (c @ v)"
    by (simp_all add: nonSpaces_append)
  moreover from s have "s = (u @ a) @ [64] @ b @ [46] @ (c @ v)"
    by simp
  ultimately show "matches emailPattern s"
    unfolding matches_emailPattern using n(2) by blast
next
  assume "matches emailPattern s"
  then have "s = [] @ s @ []" "matches emailPattern s" by simp_all
  then show "regex_test emailPattern s"
    unfolding regex_test_iff by blast
qed

section \<open>Validation and navigation\<close>

lemma validateStep_fst: "fst (validateStep k w) \<longleftrightarrow> newErrors k (resumeData w) = []"
  by (simp add: validateStep_def Let_def)

lemma validateStep_snd: "snd (validateStep k w) = w\<lparr>errors := newErrors k (resumeData w)\<rparr>"
  by (simp add: validateStep_def Let_def)

lemma nextStep_eq:
  "nextStep w =
     (if newErrors (currentStep w) (resumeData w) = [] \<and> currentStep w < 4
      then w\<lparr>errors := newErrors (currentStep w) (resumeData w),
             currentStep := currentStep w + 1\<rparr>
      else w\<lparr>errors := newErrors (currentStep w) (resumeData w)\<rparr>)"
  by (simp add: nextStep_def validateStep_def Let_def STEPS_def)

lemma newErrors_contact_cases:
  "newErrors 0 d =
     (if firstName (contactInfo d) = []
      then [(''firstName'', ''First name is required'')] else []) @
     (if lastName (contactInfo d) = []
      then [(''lastName'', ''Last name is required'')] else []) @
     (if email (contactInfo d) = [] then [(''email'', ''Email is required'')]
      else if \<not> regex_test emailPattern (email (contactInfo d))
      then [(''email'', ''Email is invalid'')] else []) @
     (if phone (contactInfo d) = [] then [(''phone'', ''Phone is required'')] else [])"
  by (simp add: newErrors_def Let_def)

lemma newErrors_contact_Nil_iff:
  "newErrors 0 d = [] \<longleftrightarrow>
     contactCompleted d \<and> regex_test emailPattern (email (contactInfo d))"
  by (auto simp: newErrors_contact_cases contactCompleted_def)

lemma sample_fields:
  "firstName (contactInfo (resumeData (sampleWizard m))) \<noteq> []"
  "lastName (contactInfo (resumeData (sampleWizard m))) \<noteq> []"
  "phone (contactInfo (resumeData (sampleWizard m))) \<noteq> []"
  "email (contactInfo (resumeData (sampleWizard m))) = js m"
  "currentStep (sampleWizard m) = 0"
  by (simp_all add: sampleWizard_def sampleResume_def sampleContact_def js_def
        initialWizard_def)

lemma perform_range:
  "offered i \<Longrightarrow> 0 \<le> currentStep w \<Longrightarrow> currentStep w \<le> 4 \<Longrightarrow>
     0 \<le> currentStep (perform w i) \<and> currentStep (perform w i) \<le> 4"
  by (cases i) (auto simp: nextStep_eq prevStep_def jumpTo_def STEPS_def)

lemma run_range:
  "list_all offered is \<Longrightarrow> 0 \<le> currentStep w \<Longrightarrow> currentStep w \<le> 4 \<Longrightarrow>
     0 \<le> currentStep (run is w) \<and> currentStep (run is w) \<le> 4"
  unfolding run_def
proof (induction "is" arbitrary: w)
  case Nil
  then show ?case by simp
next
  case (Cons i "is")
  from Cons.prems have "offered i" "list_all offered is" by simp_all
  moreover from perform_range [OF \<open>offered i\<close> Cons.prems(2,3)]
  have "0 \<le> currentStep (perform w i)" "currentStep (perform w i) \<le> 4" by simp_all
  ultimately show ?case using Cons.IH by simp
qed

section \<open>Completion percentage\<close>

text \<open>
  The six values \<open>Math.round((completed / 5) * 100)\<close> can take, computed with the
  binary64 rounding of the division and of the multiplication.
\<close>

lemma percentOf_values:
  "percentOf 0 5 = 0" "percentOf 1 5 = 20" "percentOf 2 5 = 40"
  "percentOf 3 5 = 60" "percentOf 4 5 = 80" "percentOf 5 5 = 100"
  by code_simp+

lemma completedCount_sum:
  "completedCount d =
     of_bool (contactCompleted d) + of_bool (experienceCompleted d) +
     of_bool (educationCompleted d) + of_bool (skillsCompleted d) +
     of_bool (summaryCompleted d)"
  by (simp add: completedCount_def Let_def)

lemma completedCount_filter:
  "completedCount d =
     length (filter (\<lambda>b. b) [contactCompleted d, experienceCompleted d,
       educationCompleted d, skillsCompleted d, summaryCompleted d])"
  by (simp add: completedCount_def Let_def)

lemma completedCount_le: "completedCount d \<le> 5"
  by (simp add: completedCount_sum)

lemma percentOf_20: "c \<le> 5 \<Longrightarrow> percentOf c 5 = 20 * int c"
proof -
  assume "c \<le> 5"
  then consider "c = 0" | "c = 1" | "c = 2" | "c = 3" | "c = 4" | "c = 5"
    by linarith
  then show ?thesis
  proof cases
    case 1
    then show ?thesis using percentOf_values(1) by simp
  next
    case 2
    then show ?thesis using percentOf_values(2) by simp
  next
    case 3
    then show ?thesis using percentOf_values(3) by simp
  next
    case 4
    then show ?thesis using percentOf_values(4) by simp
  next
    case 5
    then show ?thesis using percentOf_values(5) by simp
  next
    case 6
    then show ?thesis using percentOf_values(6) by simp
  qed
qed

lemma length_STEPS: "length STEPS = 5"
  by (simp add: STEPS_def)

lemma getCompletionPercentage_20: "getCompletionPercentage d = 20 * int (completedCount d)"
  unfolding getCompletionPercentage_def length_STEPS
  by (rule percentOf_20) (rule completedCount_le)

lemma Math_round_exact: "Math_round (100 * of_nat c / 5) = 20 * int c"
proof -
  have "(100 * of_nat c / 5 :: rat) = of_int (20 * int c)"
    by simp
  moreover have "\<lfloor>(of_int (20 * int c) :: rat) + 1 / 2\<rfloor> = 20 * int c"
    by (rule floor_unique) simp_all
  ultimately show ?thesis
    unfolding Math_round_def by (simp only:)
qed

lemma completed_setContactField:
  "experienceCompleted (setContactField k v d) = experienceCompleted d"
  "educationCompleted (setContactField k v d) = educationCompleted d"
  "skillsCompleted (setContactField k v d) = skillsCompleted d"
  "summaryCompleted (setContactField k v d) = summaryCompleted d"
  by (cases k; simp add: experienceCompleted_def educationCompleted_def skillsCompleted_def
        summaryCompleted_def)+

lemma contact_missing: "getContact k (contactInfo d) = [] \<Longrightarrow> \<not> contactCompleted d"
  by (cases k) (simp_all add: contactCompleted_def)

lemma mono_setContactField:
  "getContact k (contactInfo d) = [] \<Longrightarrow> completedCount d \<le> completedCount (setContactField k v d)"
  by (simp add: completedCount_sum completed_setContactField contact_missing)

lemma mono_addWorkExperience: "completedCount d \<le> completedCount (addWorkExperience now d)"
  by (simp add: completedCount_sum addWorkExperience_def contactCompleted_def
        experienceCompleted_def educationCompleted_def skillsCompleted_def summaryCompleted_def)

lemma mono_addEducation: "completedCount d \<le> completedCount (addEducation now d)"
  by (simp add: completedCount_sum addEducation_def contactCompleted_def
        experienceCompleted_def educationCompleted_def skillsCompleted_def summaryCompleted_def)

lemma mono_addSkill: "completedCount d \<le> completedCount (addSkill now d)"
  by (simp add: completedCount_sum addSkill_def contactCompleted_def
        experienceCompleted_def educationCompleted_def skillsCompleted_def summaryCompleted_def)

lemma mono_setSummary: "trim v \<noteq> [] \<Longrightarrow> completedCount d \<le> completedCount (setSummary v d)"
  by (simp add: completedCount_sum setSummary_def contactCompleted_def
        experienceCompleted_def educationCompleted_def skillsCompleted_def summaryCompleted_def)

lemma trim_sample: "trim (js '' Engineer '') = js ''Engineer''"
  by (simp add: trim_def js_def isWhiteSpace_def)

lemma fullResume_completed:
  "contactCompleted fullResume" "experienceCompleted fullResume"
  "educationCompleted fullResume" "skillsCompleted fullResume" "summaryCompleted fullResume"
  by (simp_all add: fullResume_def setSummary_def addSkill_def addEducation_def
        addWorkExperience_def sampleResume_def sampleContact_def emptyResumeData_def
        contactCompleted_def experienceCompleted_def educationCompleted_def
        skillsCompleted_def summaryCompleted_def trim_sample)
    (simp_all add: js_def)

section \<open>Store operations\<close>

lemma getProp_spreadWith_same: "getProp f (spreadWith x f v) = v"
  by (cases f) simp_all

lemma getProp_spreadWith_other: "g \<noteq> f \<Longrightarrow> getProp g (spreadWith x f v) = getProp g x"
  by (cases f; cases g) simp_all

lemma updateWorkExperience_nth:
  "n < length (workExperience d) \<Longrightarrow>
     workExperience (updateWorkExperience i f v d) ! n =
       (if we_id (workExperience d ! n) = JStr i
        then spreadWith (workExperience d ! n) f v else workExperience d ! n)"
  by (simp add: updateWorkExperience_def)

lemma updateWorkExperience_absent:
  "\<forall>x\<in>set (workExperience d). we_id x \<noteq> JStr i \<Longrightarrow> updateWorkExperience i f v d = d"
proof -
  assume a: "\<forall>x\<in>set (workExperience d). we_id x \<noteq> JStr i"
  then have "map (\<lambda>ex. if we_id ex = JStr i then spreadWith ex f v else ex) (workExperience d)
      = workExperience d"
    by (simp add: map_idI)
  then show ?thesis
    by (simp add: updateWorkExperience_def)
qed

lemma datedExperience_items:
  "workExperience datedExperience =
     [\<lparr> we_id = JStr (toString 1700000000000), company = JStr [], position = JStr [],
        startDate = JStr [], endDate = JStr (js ''2024-05''), current = JBool False,
        description = JStr [] \<rparr>]"
  by (simp add: datedExperience_def updateWorkExperience_def addWorkExperience_def
        emptyResumeData_def)

lemma count_list_filter: "P x \<Longrightarrow> count_list (filter P xs) x = count_list xs x"
  by (induction xs) auto

lemma filter_all_same:
  "\<forall>x\<in>set xs. P x \<Longrightarrow> filter P xs = xs"
  by (simp add: filter_id_conv)

lemma fullResume_items:
  "workExperience fullResume =
     [\<lparr> we_id = JStr (toString 1700000000001), company = JStr [], position = JStr [],
        startDate = JStr [], endDate = JStr [], current = JBool False,
        description = JStr [] \<rparr>]"
  "education fullResume =
     [\<lparr> edu_id = toString 1700000000002, institution = [], degree = [], field = [],
        graduationDate = [], gpa = Some [] \<rparr>]"
  by (simp_all add: fullResume_def setSummary_def addSkill_def addEducation_def
        addWorkExperience_def sampleResume_def emptyResumeData_def)

lemma twoSkills_items:
  "skills twoSkills =
     [\<lparr> skill_id = js ''1'', name = [], level = Beginner \<rparr>,
      \<lparr> skill_id = js ''2'', name = [], level = Beginner \<rparr>]"
  by (simp add: twoSkills_def addSkill_def emptyResumeData_def toString_def digits.simps js_def)

subsection \<open>Generated ids\<close>

text \<open>
  The decimal rendering of an integer determines the integer, so two items added
  with different clock readings get different ids, and only those.
\<close>

lemma digit_inj:
  assumes "a < 10" "b < 10" "(48 + of_nat a :: jschar) = 48 + of_nat b"
  shows "a = b"
proof -
  from assms(3) have "(of_nat a :: jschar) = of_nat b" by simp
  then have "unat (of_nat a :: jschar) = unat (of_nat b :: jschar)" by simp
  moreover have "unat (of_nat a :: jschar) = a" "unat (of_nat b :: jschar) = b"
    using assms(1,2) by (simp_all add: unat_of_nat)
  ultimately show ?thesis by simp
qed

lemma digit_not_minus: "a < 10 \<Longrightarrow> (48 + of_nat a :: jschar) \<noteq> 45"
proof
  assume a: "a < 10" and e: "(48 + of_nat a :: jschar) = 45"
  have "unat (48 + of_nat a :: jschar) = 48 + a"
    using a by (simp add: unat_word_ariths unat_of_nat)
  moreover from e have "unat (48 + of_nat a :: jschar) = unat (45 :: jschar)"
    by (simp only:)
  ultimately show False by simp
qed

lemma digits_not_Nil: "digits n \<noteq> []"
  by (subst digits.simps) simp

lemma last_digits: "last (digits n) = 48 + of_nat (n mod 10)"
  by (subst digits.simps) simp

lemma butlast_digits: "butlast (digits n) = (if n < 10 then [] else digits (n div 10))"
  by (subst digits.simps) simp

lemma digits_inj: "digits n = digits m \<Longrightarrow> n = m"
proof (induction n arbitrary: m rule: digits.induct)
  case (1 n)
  from "1.prems" have "last (digits n) = last (digits m)" by simp
  then have r: "n mod 10 = m mod 10"
    unfolding last_digits by (intro digit_inj) simp_all
  from "1.prems" have b: "butlast (digits n) = butlast (digits m)" by simp
  show ?case
  proof (cases "n < 10")
    case True
    with b have "m < 10"
      unfolding butlast_digits using digits_not_Nil [of "m div 10"] by (auto split: if_splits)
    with True r show ?thesis by simp
  next
    case False
    with b have m: "\<not> m < 10" and "digits (n div 10) = digits (m div 10)"
      unfolding butlast_digits using digits_not_Nil [of "n div 10"] by (auto split: if_splits)
    with False "1.IH" have "n div 10 = m div 10" by blast
    with r show ?thesis
      by (metis div_mult_mod_eq)
  qed
qed

lemma minus_notin_digits: "45 \<notin> set (digits n)"
proof (induction n rule: digits.induct)
  case (1 n)
  show ?case
  proof (cases "n < 10")
    case True
    then show ?thesis
      using digit_not_minus [of n] by (subst digits.simps) auto
  next
    case False
    then show ?thesis
      using "1.IH" digit_not_minus [of "n mod 10"] by (subst digits.simps) auto
  qed
qed

lemma toString_inj: "toString n = toString m \<Longrightarrow> n = m"
proof -
  assume e: "toString n = toString m"
  have neg: "45 # digits a \<noteq> digits b" for a b
    using minus_notin_digits [of b] by (metis list.set_intros(1))
  show ?thesis
  proof (cases "n < 0"; cases "m < 0")
    assume "n < 0" "m < 0"
    with e have "digits (nat (- n)) = digits (nat (- m))" by (simp add: toString_def)
    then have "nat (- n) = nat (- m)" by (rule digits_inj)
    with \<open>n < 0\<close> \<open>m < 0\<close> show ?thesis by simp
  next
    assume "n < 0" "\<not> m < 0"
    with e neg show ?thesis by (simp add: toString_def)
  next
    assume "\<not> n < 0" "m < 0"
    with e neg [of "nat (- m)" "nat n"] show ?thesis by (simp add: toString_def)
  next
    assume "\<not> n < 0" "\<not> m < 0"
    with e have "digits (nat n) = digits (nat m)" by (simp add: toString_def)
    then have "nat n = nat m" by (rule digits_inj)
    with \<open>\<not> n < 0\<close> \<open>\<not> m < 0\<close> show ?thesis by simp
  qed
qed

lemma add_twice_ids:
  "map skill_id (skills (addSkill t (addSkill t d))) = map skill_id (skills d) @ [toString t, toString t]"
  "map edu_id (education (addEducation t (addEducation t d))) = map edu_id (education d) @ [toString t, toString t]"
  "map we_id (workExperience (addWorkExperience t (addWorkExperience t d))) =
     map we_id (workExperience d) @ [JStr (toString t), JStr (toString t)]"
  by (simp_all add: addSkill_def addEducation_def addWorkExperience_def)

lemma add_two_distinct_iff:
  "distinct (map skill_id (skills (addSkill t2 (addSkill t1 emptyResumeData)))) \<longleftrightarrow> t1 \<noteq> t2"
  using toString_inj by (auto simp: addSkill_def emptyResumeData_def)

lemma toString_sample: "toString 1700000000000 = js ''1700000000000''"
  by (simp add: toString_def js_def digits.simps)

section \<open>The claims\<close>

text \<open>
  Claim C1. \<open>next()\<close> runs \<open>validateStep(currentStep)\<close>, whose result is whether the
  computed error map is empty. The step index grows by exactly one when that result is
  true and the index is below 4, and is unchanged otherwise; in every case the computed
  errors are the stored errors afterwards, and the resume data is untouched.
\<close>

theorem nextStep_gated:
  "fst (validateStep (currentStep w) w) = (newErrors (currentStep w) (resumeData w) = []) \<and>
   currentStep (nextStep w) =
     (if fst (validateStep (currentStep w) w) \<and> currentStep w < 4
      then currentStep w + 1 else currentStep w) \<and>
   errors (nextStep w) = newErrors (currentStep w) (resumeData w) \<and>
   errors (nextStep w) = errors (snd (validateStep (currentStep w) w)) \<and>
   resumeData (nextStep w) = resumeData w"
  by (simp add: nextStep_eq validateStep_fst validateStep_snd)

text \<open>
  On the initial wizard \<open>next()\<close> stays on step 0 and stores the four required-field
  errors; with the contact step filled in it moves to step 1 and stores no error.
\<close>

theorem nextStep_gated_witness:
  "currentStep (nextStep initialWizard) = 0 \<and>
   errors (nextStep initialWizard) =
     [(''firstName'', ''First name is required''), (''lastName'', ''Last name is required''),
      (''email'', ''Email is required''), (''phone'', ''Phone is required'')] \<and>
   currentStep (nextStep (sampleWizard ''ada@example.com'')) = 1 \<and>
   errors (nextStep (sampleWizard ''ada@example.com'')) = []"
proof -
  have "newErrors 0 (resumeData initialWizard) =
     [(''firstName'', ''First name is required''), (''lastName'', ''Last name is required''),
      (''email'', ''Email is required''), (''phone'', ''Phone is required'')]"
    by (simp add: newErrors_contact_cases initialWizard_def emptyResumeData_def)
  moreover have "currentStep initialWizard = 0"
    by (simp add: initialWizard_def)
  moreover have "newErrors 0 (resumeData (sampleWizard ''ada@example.com'')) = []"
    using ada_email by (simp add: newErrors_contact_cases sample_fields) (simp add: js_def)
  ultimately show ?thesis
    using nextStep_gated [of initialWizard] nextStep_gated [of "sampleWizard ''ada@example.com''"]
    by (simp add: sample_fields)
qed

text \<open>
  Claim C2, as the code has it. For the steps 1 to 4 the completion predicate holds
  exactly when \<open>validateStep\<close> of that step returns true. For step 0 the completion
  predicate asks only for the four required fields to be non-empty: it holds exactly
  when \<open>validateStep(0)\<close> stores no error other than the invalid-email one, and
  \<open>validateStep(0)\<close> returns true exactly when the completion predicate holds and
  the email passes the pattern test.
\<close>

theorem completion_vs_validation:
  "(experienceCompleted (resumeData w) \<longleftrightarrow> fst (validateStep 1 w)) \<and>
   (educationCompleted (resumeData w) \<longleftrightarrow> fst (validateStep 2 w)) \<and>
   (skillsCompleted (resumeData w) \<longleftrightarrow> fst (validateStep 3 w)) \<and>
   (summaryCompleted (resumeData w) \<longleftrightarrow> fst (validateStep 4 w)) \<and>
   (fst (validateStep 0 w) \<longleftrightarrow>
      contactCompleted (resumeData w) \<and>
      regex_test emailPattern (email (contactInfo (resumeData w)))) \<and>
   (contactCompleted (resumeData w) \<longleftrightarrow>
      set (errors (snd (validateStep 0 w))) \<subseteq> {(''email'', ''Email is invalid'')})"
proof -
  have "contactCompleted (resumeData w) \<longleftrightarrow>
      set (newErrors 0 (resumeData w)) \<subseteq> {(''email'', ''Email is invalid'')}"
    by (auto simp: newErrors_contact_cases contactCompleted_def split: if_splits)
  then show ?thesis
    by (simp add: validateStep_fst validateStep_snd newErrors_contact_Nil_iff)
      (simp add: newErrors_def experienceCompleted_def educationCompleted_def
        skillsCompleted_def summaryCompleted_def)
qed

text \<open>
  With a well-formed email the contact step is both complete and valid; with the email
  \<open>not-an-email\<close> it is complete and the one stored error is the invalid-email one;
  on the initial wizard the skills step is neither complete nor valid.
\<close>

theorem completion_vs_validation_witness:
  "contactCompleted (resumeData (sampleWizard ''ada@example.com'')) \<and>
   fst (validateStep 0 (sampleWizard ''ada@example.com'')) \<and>
   contactCompleted (resumeData (sampleWizard ''not-an-email'')) \<and>
   set (errors (snd (validateStep 0 (sampleWizard ''not-an-email'')))) =
     {(''email'', ''Email is invalid'')} \<and>
   \<not> skillsCompleted (resumeData initialWizard) \<and>
   \<not> fst (validateStep 3 initialWizard)"
proof -
  have c: "m \<noteq> [] \<Longrightarrow> contactCompleted (resumeData (sampleWizard m))" for m
    by (simp add: contactCompleted_def sample_fields js_def)
  have e: "set (errors (snd (validateStep 0 (sampleWizard ''not-an-email'')))) =
     {(''email'', ''Email is invalid'')}"
    using not_an_email
    by (simp add: validateStep_snd newErrors_contact_cases sample_fields) (simp add: js_def)
  have s: "\<not> skillsCompleted (resumeData initialWizard)"
    by (simp add: skillsCompleted_def initialWizard_def emptyResumeData_def)
  from c [of "''ada@example.com''"] c [of "''not-an-email''"] e s ada_email
    completion_vs_validation [of "sampleWizard ''ada@example.com''"]
    completion_vs_validation [of initialWizard]
  show ?thesis by (simp add: sample_fields)
qed

text \<open>
  Claim C2 as stated fails at step 0: with the email \<open>not-an-email\<close> and the other
  required fields present, the completion predicate holds and \<open>validateStep(0)\<close>
  returns false.
\<close>

theorem completion_vs_validation_counterexample:
  "\<not> (contactCompleted (resumeData (sampleWizard ''not-an-email'')) \<longleftrightarrow>
       fst (validateStep 0 (sampleWizard ''not-an-email'')))"
proof -
  have "contactCompleted (resumeData (sampleWizard ''not-an-email''))"
    by (simp add: contactCompleted_def sample_fields js_def)
  moreover have "\<not> fst (validateStep 0 (sampleWizard ''not-an-email''))"
    using not_an_email by (simp add: validateStep_fst newErrors_contact_Nil_iff sample_fields)
  ultimately show ?thesis by blast
qed

text \<open>
  Claim C3 at the input where it fails. When \<open>Date.now()\<close> returns the same
  millisecond in two successive calls of \<open>addSkill()\<close>, the collection holds two
  skills with level Beginner and the same id.
\<close>

theorem addSkill_same_millisecond:
  "skills (addSkill 1700000000000 (addSkill 1700000000000 emptyResumeData)) =
     [\<lparr> skill_id = js ''1700000000000'', name = [], level = Beginner \<rparr>,
      \<lparr> skill_id = js ''1700000000000'', name = [], level = Beginner \<rparr>] \<and>
   \<not> distinct (map skill_id
        (skills (addSkill 1700000000000 (addSkill 1700000000000 emptyResumeData))))"
  by (simp add: addSkill_def emptyResumeData_def toString_sample)

text \<open>
  Claim C4, as the code has it. After \<open>validateStep(0)\<close> the stored errors hold,
  under each of the keys firstName, lastName, email and phone, exactly the message the
  claim gives, and no other key; the invalid-email entry is there exactly when the
  non-empty email contains no substring of the shape non-spaces, \<open>@\<close>, non-spaces,
  dot, non-spaces (the pattern is searched for, not matched against the whole email);
  and the errors do not change when address, city, state and zipCode are replaced by
  any values.
\<close>

theorem validateStep_contact:
  "map_of (errors (snd (validateStep 0 w))) ''firstName'' =
     (if firstName (contactInfo (resumeData w)) = []
      then Some ''First name is required'' else None) \<and>
   map_of (errors (snd (validateStep 0 w))) ''lastName'' =
     (if lastName (contactInfo (resumeData w)) = []
      then Some ''Last name is required'' else None) \<and>
   map_of (errors (snd (validateStep 0 w))) ''email'' =
     (if email (contactInfo (resumeData w)) = [] then Some ''Email is required''
      else if \<not> regex_test emailPattern (email (contactInfo (resumeData w)))
      then Some ''Email is invalid'' else None) \<and>
   map_of (errors (snd (validateStep 0 w))) ''phone'' =
     (if phone (contactInfo (resumeData w)) = []
      then Some ''Phone is required'' else None) \<and>
   set (map fst (errors (snd (validateStep 0 w)))) \<subseteq>
     {''firstName'', ''lastName'', ''email'', ''phone''} \<and>
   distinct (map fst (errors (snd (validateStep 0 w)))) \<and>
   (regex_test emailPattern (email (contactInfo (resumeData w))) \<longleftrightarrow>
      (\<exists>u a b c v. email (contactInfo (resumeData w)) = u @ a @ [64] @ b @ [46] @ c @ v \<and>
         nonSpaces a \<and> nonSpaces b \<and> nonSpaces c)) \<and>
   errors (snd (validateStep 0
       (w\<lparr>resumeData := (resumeData w)\<lparr>contactInfo :=
            (contactInfo (resumeData w))\<lparr>address := ad, city := ci, state := st,
              zipCode := zc\<rparr>\<rparr>\<rparr>))) =
     errors (snd (validateStep 0 w))"
proof -
  let ?d = "resumeData w"
  let ?e = "errors (snd (validateStep 0 w))"
  have e: "?e = newErrors 0 ?d"
    by (simp add: validateStep_snd)
  have k1: "map_of ?e ''firstName'' =
     (if firstName (contactInfo ?d) = [] then Some ''First name is required'' else None)"
    unfolding e by (simp add: newErrors_contact_cases)
  have k2: "map_of ?e ''lastName'' =
     (if lastName (contactInfo ?d) = [] then Some ''Last name is required'' else None)"
    unfolding e by (simp add: newErrors_contact_cases)
  have k3: "map_of ?e ''email'' =
     (if email (contactInfo ?d) = [] then Some ''Email is required''
      else if \<not> regex_test emailPattern (email (contactInfo ?d))
      then Some ''Email is invalid'' else None)"
    unfolding e by (simp add: newErrors_contact_cases)
  have k4: "map_of ?e ''phone'' =
     (if phone (contactInfo ?d) = [] then Some ''Phone is required'' else None)"
    unfolding e by (simp add: newErrors_contact_cases)
  have keys: "set (map fst ?e) \<subseteq> {''firstName'', ''lastName'', ''email'', ''phone''}"
    unfolding e by (auto simp: newErrors_contact_cases split: if_splits)
  have dist: "distinct (map fst ?e)"
    unfolding e by (simp add: newErrors_contact_cases)
  have frame: "errors (snd (validateStep 0
       (w\<lparr>resumeData := ?d\<lparr>contactInfo :=
            (contactInfo ?d)\<lparr>address := ad, city := ci, state := st,
              zipCode := zc\<rparr>\<rparr>\<rparr>))) = ?e"
    by (simp add: validateStep_snd newErrors_contact_cases)
  from k1 k2 k3 k4 keys dist email_test_iff [of "email (contactInfo ?d)"] frame
  show ?thesis by blast
qed

text \<open>
  With the email \<open>not-an-email\<close> and the other three required fields present, the
  only entry is the invalid-email one.
\<close>

theorem validateStep_contact_witness:
  "map_of (errors (snd (validateStep 0 (sampleWizard ''not-an-email'')))) ''email'' =
     Some ''Email is invalid'' \<and>
   map_of (errors (snd (validateStep 0 (sampleWizard ''not-an-email'')))) ''firstName'' = None \<and>
   map_of (errors (snd (validateStep 0 (sampleWizard ''not-an-email'')))) ''lastName'' = None \<and>
   map_of (errors (snd (validateStep 0 (sampleWizard ''not-an-email'')))) ''phone'' = None"
proof -
  have "email (contactInfo (resumeData (sampleWizard ''not-an-email''))) \<noteq> []"
    by (simp add: sample_fields js_def)
  then show ?thesis
    using validateStep_contact [of "sampleWizard ''not-an-email''"] not_an_email
    by (simp add: sample_fields)
qed

text \<open>
  Claim C4 as stated fails when the shape is read of the whole email: the non-empty
  email \<open>john doe@x.y z\<close> does not have the shape, having white space in it, yet
  \<open>validateStep(0)\<close> finds \<open>doe@x.y\<close> inside it and stores no error.
\<close>

theorem validateStep_contact_counterexample:
  "email (contactInfo (resumeData (sampleWizard ''john doe@x.y z''))) \<noteq> [] \<and>
   \<not> (map_of (errors (snd (validateStep 0 (sampleWizard ''john doe@x.y z'')))) ''email'' =
         Some ''Email is invalid'' \<longleftrightarrow>
       \<not> matches emailPattern
           (email (contactInfo (resumeData (sampleWizard ''john doe@x.y z''))))) \<and>
   errors (snd (validateStep 0 (sampleWizard ''john doe@x.y z''))) = []"
proof -
  have n: "email (contactInfo (resumeData (sampleWizard ''john doe@x.y z''))) \<noteq> []"
    by (simp add: sample_fields js_def)
  have e: "errors (snd (validateStep 0 (sampleWizard ''john doe@x.y z''))) = []"
    using john_doe_search n
    by (simp add: validateStep_snd newErrors_contact_cases sample_fields)
  have "\<not> matches emailPattern
      (email (contactInfo (resumeData (sampleWizard ''john doe@x.y z''))))"
    using john_doe_whole by (simp add: sample_fields)
  with n e show ?thesis by simp
qed

text \<open>
  Claim C5. For each of the steps 1, 2 and 3, \<open>validateStep\<close> stores exactly one
  error, under the key of the collection, when the collection is empty, and none when
  it is not; nothing but the emptiness of the collection is looked at.
\<close>

theorem validateStep_collections:
  "errors (snd (validateStep 1 w)) =
     (if workExperience (resumeData w) = []
      then [(''workExperience'', ''At least one work experience is required'')] else []) \<and>
   errors (snd (validateStep 2 w)) =
     (if education (resumeData w) = []
      then [(''education'', ''At least one education entry is required'')] else []) \<and>
   errors (snd (validateStep 3 w)) =
     (if skills (resumeData w) = []
      then [(''skills'', ''At least one skill is required'')] else []) \<and>
   (length (errors (snd (validateStep 1 w))) = 1 \<longleftrightarrow> workExperience (resumeData w) = []) \<and>
   (length (errors (snd (validateStep 2 w))) = 1 \<longleftrightarrow> education (resumeData w) = []) \<and>
   (length (errors (snd (validateStep 3 w))) = 1 \<longleftrightarrow> skills (resumeData w) = []) \<and>
   (fst (validateStep 1 w) \<longleftrightarrow> workExperience (resumeData w) \<noteq> []) \<and>
   (fst (validateStep 2 w) \<longleftrightarrow> education (resumeData w) \<noteq> []) \<and>
   (fst (validateStep 3 w) \<longleftrightarrow> skills (resumeData w) \<noteq> [])"
  by (simp add: validateStep_fst validateStep_snd newErrors_def)

text \<open>
  An empty skills collection gives the one error; a collection holding a single skill
  with an empty name gives none.
\<close>

theorem validateStep_collections_witness:
  "errors (snd (validateStep 3 initialWizard)) =
     [(''skills'', ''At least one skill is required'')] \<and>
   errors (snd (validateStep 3
     (initialWizard\<lparr>resumeData := addSkill 1700000000000 emptyResumeData\<rparr>))) = []"
  using validateStep_collections [of initialWizard]
    validateStep_collections
      [of "initialWizard\<lparr>resumeData := addSkill 1700000000000 emptyResumeData\<rparr>"]
  by (simp add: initialWizard_def emptyResumeData_def addSkill_def)

text \<open>
  Claim C6. The completion percentage is \<open>round(100 * satisfiedCount / 5)\<close>, where
  the count is the number of the five step predicates that hold; it is 0 on the empty
  resume data and 100 when all five hold. It does not decrease when an empty required
  contact field is given a non-empty value, when an item is added to a collection
  (empty or not), or when the summary is set to a text that is not blank.
\<close>

theorem completion_percentage:
  "getCompletionPercentage d = Math_round (100 * of_nat (completedCount d) / 5) \<and>
   completedCount d =
     length (filter (\<lambda>b. b) [contactCompleted d, experienceCompleted d,
       educationCompleted d, skillsCompleted d, summaryCompleted d]) \<and>
   getCompletionPercentage emptyResumeData = 0 \<and>
   (contactCompleted d \<and> experienceCompleted d \<and> educationCompleted d \<and>
    skillsCompleted d \<and> summaryCompleted d \<longrightarrow> getCompletionPercentage d = 100) \<and>
   (getContact k (contactInfo d) = [] \<and> v \<noteq> [] \<longrightarrow>
      getCompletionPercentage d \<le> getCompletionPercentage (setContactField k v d)) \<and>
   getCompletionPercentage d \<le> getCompletionPercentage (addWorkExperience now d) \<and>
   getCompletionPercentage d \<le> getCompletionPercentage (addEducation now d) \<and>
   getCompletionPercentage d \<le> getCompletionPercentage (addSkill now d) \<and>
   (trim t \<noteq> [] \<longrightarrow>
      getCompletionPercentage d \<le> getCompletionPercentage (setSummary t d))"
proof -
  have "getCompletionPercentage d = Math_round (100 * of_nat (completedCount d) / 5)"
    by (simp only: getCompletionPercentage_20 Math_round_exact)
  moreover have "completedCount emptyResumeData = 0"
    by (simp add: completedCount_sum emptyResumeData_def contactCompleted_def
          experienceCompleted_def educationCompleted_def skillsCompleted_def
          summaryCompleted_def trim_def)
  then have "getCompletionPercentage emptyResumeData = 0"
    by (simp add: getCompletionPercentage_20)
  moreover have "contactCompleted d \<and> experienceCompleted d \<and> educationCompleted d \<and>
    skillsCompleted d \<and> summaryCompleted d \<longrightarrow> getCompletionPercentage d = 100"
    by (simp add: getCompletionPercentage_20 completedCount_sum)
  moreover have "getContact k (contactInfo d) = [] \<and> v \<noteq> [] \<longrightarrow>
      getCompletionPercentage d \<le> getCompletionPercentage (setContactField k v d)"
    by (simp add: getCompletionPercentage_20 mono_setContactField)
  moreover have "getCompletionPercentage d \<le> getCompletionPercentage (addWorkExperience now d)"
    "getCompletionPercentage d \<le> getCompletionPercentage (addEducation now d)"
    "getCompletionPercentage d \<le> getCompletionPercentage (addSkill now d)"
    by (simp_all add: getCompletionPercentage_20 mono_addWorkExperience mono_addEducation
          mono_addSkill)
  moreover have "trim t \<noteq> [] \<longrightarrow>
      getCompletionPercentage d \<le> getCompletionPercentage (setSummary t d)"
    by (simp add: getCompletionPercentage_20 mono_setSummary)
  ultimately show ?thesis
    using completedCount_filter [of d] by blast
qed

text \<open>
  The empty resume data scores 0 and a resume with all five steps satisfied scores
  100; filling the first name, or setting a summary, on the empty data does not lower
  the score.
\<close>

theorem completion_percentage_witness:
  "getCompletionPercentage emptyResumeData = 0 \<and>
   getCompletionPercentage fullResume = 100 \<and>
   getContact K_firstName (contactInfo emptyResumeData) = [] \<and> js ''Ada'' \<noteq> [] \<and>
   getCompletionPercentage emptyResumeData \<le>
     getCompletionPercentage (setContactField K_firstName (js ''Ada'') emptyResumeData) \<and>
   trim (js '' Engineer '') \<noteq> [] \<and>
   getCompletionPercentage emptyResumeData \<le>
     getCompletionPercentage (setSummary (js '' Engineer '') emptyResumeData)"
proof -
  have a: "getContact K_firstName (contactInfo emptyResumeData) = []" "js ''Ada'' \<noteq> []"
    by (simp_all add: emptyResumeData_def js_def)
  have t: "trim (js '' Engineer '') \<noteq> []"
    by (simp add: trim_sample) (simp add: js_def)
  note f = completion_percentage [of fullResume K_firstName "js ''Ada''" 0 "js '' Engineer ''"]
  note e = completion_percentage
    [of emptyResumeData K_firstName "js ''Ada''" 0 "js '' Engineer ''"]
  have "getCompletionPercentage fullResume = 100"
    using f fullResume_completed by blast
  moreover have "getCompletionPercentage emptyResumeData = 0"
    using e by blast
  moreover have "getCompletionPercentage emptyResumeData \<le>
     getCompletionPercentage (setContactField K_firstName (js ''Ada'') emptyResumeData)"
    using e a by blast
  moreover have "getCompletionPercentage emptyResumeData \<le>
     getCompletionPercentage (setSummary (js '' Engineer '') emptyResumeData)"
    using e t by blast
  ultimately show ?thesis
    using a t by blast
qed

text \<open>
  Claim C7. From the initial state, and from any state whose step index is in 0..4,
  every sequence of offered intents (next, previous, a jump to an index of \<open>STEPS\<close>,
  and any mutation of the resume data in between) leaves the step index in 0..4.
  \<open>previous()\<close> at step 0 and \<open>next()\<close> at step 4 leave it unchanged.
\<close>

theorem currentStep_in_range:
  "(list_all offered is \<longrightarrow>
      0 \<le> currentStep (run is initialWizard) \<and> currentStep (run is initialWizard) \<le> 4) \<and>
   (list_all offered is \<and> 0 \<le> currentStep w \<and> currentStep w \<le> 4 \<longrightarrow>
      0 \<le> currentStep (run is w) \<and> currentStep (run is w) \<le> 4) \<and>
   (currentStep w = 0 \<longrightarrow> currentStep (prevStep w) = 0) \<and>
   (currentStep w = 4 \<longrightarrow> currentStep (nextStep w) = 4)"
proof -
  have "0 \<le> currentStep initialWizard" "currentStep initialWizard \<le> 4"
    by (simp_all add: initialWizard_def)
  then have "list_all offered is \<longrightarrow>
      0 \<le> currentStep (run is initialWizard) \<and> currentStep (run is initialWizard) \<le> 4"
    using run_range by blast
  moreover have "list_all offered is \<and> 0 \<le> currentStep w \<and> currentStep w \<le> 4 \<longrightarrow>
      0 \<le> currentStep (run is w) \<and> currentStep (run is w) \<le> 4"
    using run_range by blast
  moreover have "currentStep w = 0 \<longrightarrow> currentStep (prevStep w) = 0"
    by (simp add: prevStep_def)
  moreover have "currentStep w = 4 \<longrightarrow> currentStep (nextStep w) = 4"
    by (simp add: nextStep_eq)
  ultimately show ?thesis by blast
qed

text \<open>
  A run that jumps to the last step, presses Next there, and walks back past step 0:
  the intents are offered and the index ends in range; Next at step 4 stays at 4 and
  Previous at step 0 stays at 0.
\<close>

theorem currentStep_in_range_witness:
  "list_all offered [JumpTo 4, Next, Previous, JumpTo 0, Previous] \<and>
   0 \<le> currentStep (run [JumpTo 4, Next, Previous, JumpTo 0, Previous] initialWizard) \<and>
   currentStep (run [JumpTo 4, Next, Previous, JumpTo 0, Previous] initialWizard) \<le> 4 \<and>
   currentStep (jumpTo 4 initialWizard) = 4 \<and>
   currentStep (nextStep (jumpTo 4 initialWizard)) = 4 \<and>
   currentStep initialWizard = 0 \<and>
   currentStep (prevStep initialWizard) = 0"
proof -
  have o: "list_all offered [JumpTo 4, Next, Previous, JumpTo 0, Previous]"
    by (simp add: STEPS_def)
  have j: "currentStep (jumpTo 4 initialWizard) = 4"
    by (simp add: jumpTo_def)
  have z: "currentStep initialWizard = 0"
    by (simp add: initialWizard_def)
  from o j z
    currentStep_in_range
      [of "[JumpTo 4, Next, Previous, JumpTo 0, Previous]" initialWizard]
    currentStep_in_range [of "[]" "jumpTo 4 initialWizard"]
  show ?thesis by simp
qed

text \<open>
  Claim C8. \<open>updateWorkExperience(id, field, value)\<close> keeps the length and order of
  the collection; an item whose id matches gets the value under the named key and keeps
  every other property; an item whose id does not match is unchanged; contact info,
  education, skills and summary are unchanged; when no item has the id the whole
  aggregate is unchanged. Setting \<open>current\<close> to true leaves every \<open>endDate\<close> as it
  was.
\<close>

theorem updateWorkExperience_frame:
  "length (workExperience (updateWorkExperience i f v d)) = length (workExperience d) \<and>
   (\<forall>n < length (workExperience d).
      (we_id (workExperience d ! n) = JStr i \<longrightarrow>
         getProp f (workExperience (updateWorkExperience i f v d) ! n) = v \<and>
         (\<forall>g. g \<noteq> f \<longrightarrow>
            getProp g (workExperience (updateWorkExperience i f v d) ! n) =
            getProp g (workExperience d ! n))) \<and>
      (we_id (workExperience d ! n) \<noteq> JStr i \<longrightarrow>
         workExperience (updateWorkExperience i f v d) ! n = workExperience d ! n)) \<and>
   contactInfo (updateWorkExperience i f v d) = contactInfo d \<and>
   education (updateWorkExperience i f v d) = education d \<and>
   skills (updateWorkExperience i f v d) = skills d \<and>
   summary (updateWorkExperience i f v d) = summary d \<and>
   ((\<forall>x\<in>set (workExperience d). we_id x \<noteq> JStr i) \<longrightarrow> updateWorkExperience i f v d = d) \<and>
   (\<forall>n < length (workExperience d).
      endDate (workExperience (updateWorkExperience i K_current (JBool True) d) ! n) =
      endDate (workExperience d ! n))"
proof -
  have len: "length (workExperience (updateWorkExperience i f v d)) = length (workExperience d)"
    by (simp add: updateWorkExperience_def)
  have item: "\<forall>n < length (workExperience d).
      (we_id (workExperience d ! n) = JStr i \<longrightarrow>
         getProp f (workExperience (updateWorkExperience i f v d) ! n) = v \<and>
         (\<forall>g. g \<noteq> f \<longrightarrow>
            getProp g (workExperience (updateWorkExperience i f v d) ! n) =
            getProp g (workExperience d ! n))) \<and>
      (we_id (workExperience d ! n) \<noteq> JStr i \<longrightarrow>
         workExperience (updateWorkExperience i f v d) ! n = workExperience d ! n)"
    by (simp add: updateWorkExperience_nth getProp_spreadWith_same getProp_spreadWith_other)
  have rest: "contactInfo (updateWorkExperience i f v d) = contactInfo d"
    "education (updateWorkExperience i f v d) = education d"
    "skills (updateWorkExperience i f v d) = skills d"
    "summary (updateWorkExperience i f v d) = summary d"
    by (simp_all add: updateWorkExperience_def)
  have absent: "(\<forall>x\<in>set (workExperience d). we_id x \<noteq> JStr i) \<longrightarrow>
      updateWorkExperience i f v d = d"
    using updateWorkExperience_absent by blast
  have kept: "\<forall>n < length (workExperience d).
      endDate (workExperience (updateWorkExperience i K_current (JBool True) d) ! n) =
      endDate (workExperience d ! n)"
    by (simp add: updateWorkExperience_nth)
  from len item rest absent kept show ?thesis by blast
qed

text \<open>
  An experience with end date \<open>2024-05\<close> keeps that end date when \<open>current\<close> is
  set to true; an update under an id that no item has changes nothing.
\<close>

theorem updateWorkExperience_frame_witness:
  "length (workExperience datedExperience) = 1 \<and>
   we_id (workExperience datedExperience ! 0) = JStr (toString 1700000000000) \<and>
   current (workExperience
     (updateWorkExperience (toString 1700000000000) K_current (JBool True) datedExperience) ! 0) =
     JBool True \<and>
   endDate (workExperience
     (updateWorkExperience (toString 1700000000000) K_current (JBool True) datedExperience) ! 0) =
     JStr (js ''2024-05'') \<and>
   list_all (\<lambda>x. we_id x \<noteq> JStr (js ''1'')) (workExperience datedExperience) \<and>
   updateWorkExperience (js ''1'') K_company (JStr (js ''Acme'')) datedExperience =
     datedExperience"
proof -
  have n: "list_all (\<lambda>x. we_id x \<noteq> JStr (js ''1'')) (workExperience datedExperience)"
    by (simp add: datedExperience_items toString_sample) (simp add: js_def)
  then have b: "\<forall>x\<in>set (workExperience datedExperience). we_id x \<noteq> JStr (js ''1'')"
    by (simp add: list_all_iff)
  from n b
    updateWorkExperience_frame
      [of "toString 1700000000000" K_current "JBool True" datedExperience]
    updateWorkExperience_frame [of "js ''1''" K_company "JStr (js ''Acme'')" datedExperience]
  show ?thesis by (simp add: datedExperience_items)
qed

text \<open>
  Claim C9. The sidebar jump sets the step index to the index given, whatever the
  state it is made from (no validation is consulted), and changes neither the resume
  data nor the stored errors.
\<close>

theorem jumpTo_unconditional:
  "currentStep (jumpTo k w) = k \<and> resumeData (jumpTo k w) = resumeData w \<and>
   errors (jumpTo k w) = errors w"
  by (simp add: jumpTo_def)

text \<open>
  On the initial wizard step 0 does not validate, and the jump to step 3 is made all
  the same, with no error stored.
\<close>

theorem jumpTo_unconditional_witness:
  "\<not> fst (validateStep (currentStep initialWizard) initialWizard) \<and>
   currentStep (jumpTo 3 initialWizard) = 3 \<and>
   resumeData (jumpTo 3 initialWizard) = emptyResumeData \<and>
   errors (jumpTo 3 initialWizard) = []"
proof -
  have "\<not> fst (validateStep (currentStep initialWizard) initialWizard)"
    by (simp add: validateStep_fst newErrors_contact_cases initialWizard_def
          emptyResumeData_def)
  then show ?thesis
    using jumpTo_unconditional [of 3 initialWizard]
    by (simp add: initialWizard_def)
qed

text \<open>
  Claim C10. Each of \<open>removeWorkExperience\<close>, \<open>removeEducation\<close> and
  \<open>removeSkill\<close> leaves in its collection exactly the items whose id differs from
  the given one, in their former order and as often as before, and leaves the rest of
  the aggregate unchanged; when no item has the id the aggregate is unchanged.
\<close>

theorem remove_exact:
  "set (workExperience (removeWorkExperience i d)) =
     {x \<in> set (workExperience d). we_id x \<noteq> JStr i} \<and>
   subseq (workExperience (removeWorkExperience i d)) (workExperience d) \<and>
   (\<forall>x. we_id x \<noteq> JStr i \<longrightarrow>
      count_list (workExperience (removeWorkExperience i d)) x = count_list (workExperience d) x) \<and>
   contactInfo (removeWorkExperience i d) = contactInfo d \<and>
   education (removeWorkExperience i d) = education d \<and>
   skills (removeWorkExperience i d) = skills d \<and>
   summary (removeWorkExperience i d) = summary d \<and>
   ((\<forall>x\<in>set (workExperience d). we_id x \<noteq> JStr i) \<longrightarrow> removeWorkExperience i d = d) \<and>
   set (education (removeEducation i d)) = {x \<in> set (education d). edu_id x \<noteq> i} \<and>
   subseq (education (removeEducation i d)) (education d) \<and>
   (\<forall>x. edu_id x \<noteq> i \<longrightarrow>
      count_list (education (removeEducation i d)) x = count_list (education d) x) \<and>
   contactInfo (removeEducation i d) = contactInfo d \<and>
   workExperience (removeEducation i d) = workExperience d \<and>
   skills (removeEducation i d) = skills d \<and>
   summary (removeEducation i d) = summary d \<and>
   ((\<forall>x\<in>set (education d). edu_id x \<noteq> i) \<longrightarrow> removeEducation i d = d) \<and>
   set (skills (removeSkill i d)) = {x \<in> set (skills d). skill_id x \<noteq> i} \<and>
   subseq (skills (removeSkill i d)) (skills d) \<and>
   (\<forall>x. skill_id x \<noteq> i \<longrightarrow>
      count_list (skills (removeSkill i d)) x = count_list (skills d) x) \<and>
   contactInfo (removeSkill i d) = contactInfo d \<and>
   workExperience (removeSkill i d) = workExperience d \<and>
   education (removeSkill i d) = education d \<and>
   summary (removeSkill i d) = summary d \<and>
   ((\<forall>x\<in>set (skills d). skill_id x \<noteq> i) \<longrightarrow> removeSkill i d = d)"
proof -
  have we: "set (workExperience (removeWorkExperience i d)) =
     {x \<in> set (workExperience d). we_id x \<noteq> JStr i}"
    "subseq (workExperience (removeWorkExperience i d)) (workExperience d)"
    "\<forall>x. we_id x \<noteq> JStr i \<longrightarrow>
      count_list (workExperience (removeWorkExperience i d)) x = count_list (workExperience d) x"
    "contactInfo (removeWorkExperience i d) = contactInfo d"
    "education (removeWorkExperience i d) = education d"
    "skills (removeWorkExperience i d) = skills d"
    "summary (removeWorkExperience i d) = summary d"
    "(\<forall>x\<in>set (workExperience d). we_id x \<noteq> JStr i) \<longrightarrow> removeWorkExperience i d = d"
    by (simp_all add: removeWorkExperience_def count_list_filter filter_all_same)
  have edu: "set (education (removeEducation i d)) = {x \<in> set (education d). edu_id x \<noteq> i}"
    "subseq (education (removeEducation i d)) (education d)"
    "\<forall>x. edu_id x \<noteq> i \<longrightarrow>
      count_list (education (removeEducation i d)) x = count_list (education d) x"
    "contactInfo (removeEducation i d) = contactInfo d"
    "workExperience (removeEducation i d) = workExperience d"
    "skills (removeEducation i d) = skills d"
    "summary (removeEducation i d) = summary d"
    "(\<forall>x\<in>set (education d). edu_id x \<noteq> i) \<longrightarrow> removeEducation i d = d"
    by (simp_all add: removeEducation_def count_list_filter filter_all_same)
  have sk: "set (skills (removeSkill i d)) = {x \<in> set (skills d). skill_id x \<noteq> i}"
    "subseq (skills (removeSkill i d)) (skills d)"
    "\<forall>x. skill_id x \<noteq> i \<longrightarrow>
      count_list (skills (removeSkill i d)) x = count_list (skills d) x"
    "contactInfo (removeSkill i d) = contactInfo d"
    "workExperience (removeSkill i d) = workExperience d"
    "education (removeSkill i d) = education d"
    "summary (removeSkill i d) = summary d"
    "(\<forall>x\<in>set (skills d). skill_id x \<noteq> i) \<longrightarrow> removeSkill i d = d"
    by (simp_all add: removeSkill_def count_list_filter filter_all_same)
  from we edu sk show ?thesis by blast
qed

text \<open>
  Removing the id of the first of two skills leaves the second, once; removing the id of
  the only experience (or education) empties that collection and leaves the others;
  removing an id that no item has changes nothing.
\<close>

theorem remove_exact_witness:
  "set (skills (removeSkill (js ''1'') twoSkills)) =
     {\<lparr> skill_id = js ''2'', name = [], level = Beginner \<rparr>} \<and>
   skill_id \<lparr> skill_id = js ''2'', name = [], level = Beginner \<rparr> \<noteq> js ''1'' \<and>
   count_list (skills (removeSkill (js ''1'') twoSkills))
     \<lparr> skill_id = js ''2'', name = [], level = Beginner \<rparr> = 1 \<and>
   list_all (\<lambda>x. skill_id x \<noteq> js ''3'') (skills twoSkills) \<and>
   removeSkill (js ''3'') twoSkills = twoSkills \<and>
   workExperience (removeWorkExperience (toString 1700000000001) fullResume) = [] \<and>
   education (removeWorkExperience (toString 1700000000001) fullResume) = education fullResume \<and>
   education (removeEducation (toString 1700000000002) fullResume) = [] \<and>
   list_all (\<lambda>x. we_id x \<noteq> JStr (toString 5)) (workExperience fullResume) \<and>
   removeWorkExperience (toString 5) fullResume = fullResume \<and>
   list_all (\<lambda>x. edu_id x \<noteq> toString 5) (education fullResume) \<and>
   removeEducation (toString 5) fullResume = fullResume"
proof -
  note s1 = remove_exact [of "js ''1''" twoSkills]
  note s3 = remove_exact [of "js ''3''" twoSkills]
  note f1 = remove_exact [of "toString 1700000000001" fullResume]
  note f2 = remove_exact [of "toString 1700000000002" fullResume]
  note f5 = remove_exact [of "toString 5" fullResume]
  have n: "list_all (\<lambda>x. skill_id x \<noteq> js ''3'') (skills twoSkills)"
    by (simp add: twoSkills_items) (simp add: js_def)
  then have "\<forall>x\<in>set (skills twoSkills). skill_id x \<noteq> js ''3''"
    by (simp add: list_all_iff)
  with s3 have a: "removeSkill (js ''3'') twoSkills = twoSkills"
    by blast
  have d: "skill_id \<lparr> skill_id = js ''2'', name = [], level = Beginner \<rparr> \<noteq> js ''1''"
    by (simp add: js_def)
  have "{x \<in> set (skills twoSkills). skill_id x \<noteq> js ''1''} =
     {\<lparr> skill_id = js ''2'', name = [], level = Beginner \<rparr>}"
    by (auto simp: twoSkills_items js_def)
  with s1 have b: "set (skills (removeSkill (js ''1'') twoSkills)) =
     {\<lparr> skill_id = js ''2'', name = [], level = Beginner \<rparr>}"
    by simp
  have "count_list (skills twoSkills) \<lparr> skill_id = js ''2'', name = [], level = Beginner \<rparr> = 1"
    by (simp add: twoSkills_items js_def)
  with s1 d have c: "count_list (skills (removeSkill (js ''1'') twoSkills))
     \<lparr> skill_id = js ''2'', name = [], level = Beginner \<rparr> = 1"
    by simp
  have "{x \<in> set (workExperience fullResume). we_id x \<noteq> JStr (toString 1700000000001)} = {}"
    by (simp add: fullResume_items)
  with f1 have w: "workExperience (removeWorkExperience (toString 1700000000001) fullResume) = []"
    by simp
  from f1 have we: "education (removeWorkExperience (toString 1700000000001) fullResume) =
      education fullResume"
    by blast
  have "{x \<in> set (education fullResume). edu_id x \<noteq> toString 1700000000002} = {}"
    by (simp add: fullResume_items)
  with f2 have e: "education (removeEducation (toString 1700000000002) fullResume) = []"
    by simp
  have t: "toString 1700000000001 \<noteq> toString 5" "toString 1700000000002 \<noteq> toString 5"
    using toString_inj by fastforce+
  then have nw: "list_all (\<lambda>x. we_id x \<noteq> JStr (toString 5)) (workExperience fullResume)"
    and ne: "list_all (\<lambda>x. edu_id x \<noteq> toString 5) (education fullResume)"
    by (simp_all add: fullResume_items)
  then have "\<forall>x\<in>set (workExperience fullResume). we_id x \<noteq> JStr (toString 5)"
    "\<forall>x\<in>set (education fullResume). edu_id x \<noteq> toString 5"
    by (simp_all add: list_all_iff)
  with f5 have g: "removeWorkExperience (toString 5) fullResume = fullResume"
    "removeEducation (toString 5) fullResume = fullResume"
    by blast+
  from a b c d n w we e nw ne g show ?thesis by blast
qed

end
